theory Spec2Isabelle
  imports Complex_Main
begin

section \<open>Yahoo feeds of backtrader: the CSV line parser, the API normaliser, the cursor\<close>

text \<open>
  The embedding follows \<^verbatim>\<open>backtrader/feeds/base.py\<close> and
  \<^verbatim>\<open>backtrader/feeds/yahoo.py\<close>.

  Conventions of the model:
  \<^item> a Python \<^verbatim>\<open>float\<close> is a \<^typ>\<open>real\<close>: arithmetic is exact, so overflow,
    underflow, infinities, NaN and the rounding error of single operations are outside
    the model;
  \<^item> an exception is a value of \<open>py_error\<close>; a method that mutates \<^verbatim>\<open>self\<close> takes the
    object's state and returns it, also when it raises (what was written before the
    raise stays written);
  \<^item> the builtins \<^verbatim>\<open>int()\<close> and \<^verbatim>\<open>float()\<close> on strings, and the conversions of
    dates to the engine's numeric time, are parameters of the model (the record
    \<open>py_env\<close> and the function arguments \<open>fromtimestamp\<close>, \<open>date2num\<close>): every
    theorem holds for whatever they compute. \<open>fromtimestamp\<close> may raise, as
    \<^verbatim>\<open>datetime.fromtimestamp\<close> does on a timestamp outside its range.
\<close>

subsection \<open>Exceptions and outcomes\<close>

datatype py_error =
  IndexError | ValueError | ZeroDivisionError | KeyError | AttributeError |
  OverflowError | OSError

text \<open>A call on a stateful object either raises or returns a flag; the state comes
  back in both cases.\<close>

datatype 's outcome = Raised py_error 's | Returned bool 's

text \<open>The object's state once the call is over.\<close>

definition final :: "'s outcome \<Rightarrow> 's" where
  "final r = (case r of Raised e s \<Rightarrow> s | Returned b s \<Rightarrow> s)"

text \<open>The flag it returned, if it returned.\<close>

definition flag :: "'s outcome \<Rightarrow> bool option" where
  "flag r = (case r of Raised e s \<Rightarrow> None | Returned b s \<Rightarrow> Some b)"

subsection \<open>The builtin \<^verbatim>\<open>round(x, ndigits)\<close> on exact values\<close>

text \<open>Round half to even at \<open>ndigits\<close> decimals; a negative \<open>ndigits\<close> rounds to tens,
  hundreds and so on.\<close>

definition round_half_even :: "real \<Rightarrow> int" where
  "round_half_even x =
     (let fl = \<lfloor>x\<rfloor>; d = x - of_int fl
      in if d < 1 / 2 then fl
         else if 1 / 2 < d then fl + 1
         else if even fl then fl else fl + 1)"

definition py_round :: "real \<Rightarrow> int \<Rightarrow> real" where
  "py_round x ndigits =
     (if 0 \<le> ndigits
      then of_int (round_half_even (x * 10 ^ nat ndigits)) / 10 ^ nat ndigits
      else of_int (round_half_even (x / 10 ^ nat (- ndigits))) * 10 ^ nat (- ndigits))"

definition py_div :: "real \<Rightarrow> real \<Rightarrow> py_error + real" where
  "py_div a b = (if b = 0 then Inl ZeroDivisionError else Inr (a / b))"

subsection \<open>Builtins and library functions taken as parameters\<close>

record py_env =
  py_int :: "string \<Rightarrow> int option"
  py_float :: "string \<Rightarrow> real option"
  sessionend_num :: "int \<Rightarrow> int \<Rightarrow> int \<Rightarrow> real"

text \<open>
  \<open>py_int env s\<close> and \<open>py_float env s\<close> are \<^verbatim>\<open>int(s)\<close> and \<^verbatim>\<open>float(s)\<close>, \<open>None\<close>
  where they raise ValueError. \<open>sessionend_num env y m d\<close> is
  \<^verbatim>\<open>date2num(datetime.combine(date(y, m, d), self.p.sessionend))\<close> on a valid date.
\<close>

subsection \<open>\<^verbatim>\<open>YahooFinanceCSVData\<close>: parameters and state\<close>

record params =
  reverse :: bool
  adjclose :: bool
  adjvolume :: bool
  round_p :: bool
  decimals :: int
  roundvolume :: int
  swapcloses :: bool

text \<open>The class defaults. \<^verbatim>\<open>roundvolume\<close> is \<^verbatim>\<open>False\<close> in the source; as the second
  argument of \<^verbatim>\<open>round\<close> that is the integer 0.\<close>

definition default_params :: params where
  "default_params =
     \<lparr>reverse = False, adjclose = True, adjvolume = True, round_p = True,
      decimals = 2, roundvolume = 0, swapcloses = False\<rparr>"

text \<open>The slots \<^verbatim>\<open>self.lines.X[0]\<close> of the bar being loaded; \<open>None\<close> is a slot no
  assignment has reached.\<close>

record csv_lines =
  l_datetime :: "real option"
  l_open :: "real option"
  l_high :: "real option"
  l_low :: "real option"
  l_close :: "real option"
  l_volume :: "real option"
  l_openinterest :: "real option"
  l_adjclose :: "real option"

definition no_lines :: csv_lines where
  "no_lines =
     \<lparr>l_datetime = None, l_open = None, l_high = None, l_low = None, l_close = None,
      l_volume = None, l_openinterest = None, l_adjclose = None\<rparr>"

record csv_data =
  source :: "string list list"
  lines :: csv_lines

text \<open>Modelled from the spec: \<^verbatim>\<open>_getnextline\<close> of \<^verbatim>\<open>feed.CSVDataBase\<close> is not in
  the sources at hand. The Line Source yields the next tokenised line, or signals
  exhaustion; \<open>source\<close> holds the lines not read yet.\<close>

definition getnextline :: "csv_data \<Rightarrow> string list option \<times> csv_data" where
  "getnextline d =
     (case source d of
        [] \<Rightarrow> (None, d)
      | line # rest \<Rightarrow> (Some line, d\<lparr>source := rest\<rparr>))"

subsection \<open>\<^verbatim>\<open>_loadline\<close>: resolving null lines\<close>

text \<open>
  The \<^verbatim>\<open>while True\<close> loop: the \<^verbatim>\<open>for\<close> over \<^verbatim>\<open>linetokens[1:]\<close> stops at the first
  token equal to \<^verbatim>\<open>'null'\<close>, refetches, returns False when nothing (or an empty token
  list) comes back, and otherwise scans the fetched line. The result \<open>None\<close> is the
  \<^verbatim>\<open>return False\<close>.
\<close>

function resolve_nulls :: "csv_data \<Rightarrow> string list \<Rightarrow> string list option \<times> csv_data" where
  "resolve_nulls d linetokens =
     (if ''null'' \<in> set (drop 1 linetokens) then
        (case getnextline d of
           (None, d') \<Rightarrow> (None, d')
         | (Some [], d') \<Rightarrow> (None, d')
         | (Some (t # ts), d') \<Rightarrow> resolve_nulls d' (t # ts))
      else (Some linetokens, d))"
  by pat_completeness auto
termination
  by (relation "measure (\<lambda>(d, _). length (source d))")
     (auto simp: getnextline_def split: list.splits)

subsection \<open>\<^verbatim>\<open>_loadline\<close>: field extraction\<close>

text \<open>\<^verbatim>\<open>linetokens[next(i)]\<close>: IndexError past the end of the line.\<close>

definition token :: "string list \<Rightarrow> nat \<Rightarrow> py_error + string" where
  "token linetokens i =
     (if i < length linetokens then Inr (linetokens ! i) else Inl IndexError)"

text \<open>\<^verbatim>\<open>float(linetokens[next(i)])\<close>.\<close>

definition float_token :: "py_env \<Rightarrow> string list \<Rightarrow> nat \<Rightarrow> py_error + real" where
  "float_token env linetokens i =
     (case token linetokens i of
        Inl e \<Rightarrow> Inl e
      | Inr s \<Rightarrow> (case py_float env s of None \<Rightarrow> Inl ValueError | Some x \<Rightarrow> Inr x))"

text \<open>The constructor \<^verbatim>\<open>date(year, month, day)\<close> raises ValueError outside the
  calendar.\<close>

definition is_leap :: "int \<Rightarrow> bool" where
  "is_leap y = (y mod 4 = 0 \<and> (y mod 100 \<noteq> 0 \<or> y mod 400 = 0))"

definition days_in_month :: "int \<Rightarrow> int \<Rightarrow> int" where
  "days_in_month y m =
     (if m = 2 then (if is_leap y then 29 else 28)
      else if m = 4 \<or> m = 6 \<or> m = 9 \<or> m = 11 then 30 else 31)"

definition valid_date :: "int \<Rightarrow> int \<Rightarrow> int \<Rightarrow> bool" where
  "valid_date y m d =
     (1 \<le> y \<and> y \<le> 9999 \<and> 1 \<le> m \<and> m \<le> 12 \<and> 1 \<le> d \<and> d \<le> days_in_month y m)"

text \<open>\<^verbatim>\<open>date(int(dttxt[0:4]), int(dttxt[5:7]), int(dttxt[8:10]))\<close>, then the numeric
  time at the session end.\<close>

definition parse_date :: "py_env \<Rightarrow> string \<Rightarrow> py_error + real" where
  "parse_date env dttxt =
     (case py_int env (take 4 dttxt) of
        None \<Rightarrow> Inl ValueError
      | Some y \<Rightarrow>
     (case py_int env (take 2 (drop 5 dttxt)) of
        None \<Rightarrow> Inl ValueError
      | Some m \<Rightarrow>
     (case py_int env (take 2 (drop 8 dttxt)) of
        None \<Rightarrow> Inl ValueError
      | Some dd \<Rightarrow>
          if valid_date y m dd then Inr (sessionend_num env y m dd) else Inl ValueError)))"

subsection \<open>\<^verbatim>\<open>_loadline\<close>: adjustment, rounding, assignment\<close>

text \<open>Lines 148 to 179 of \<^verbatim>\<open>yahoo.py\<close>, from the parsed values on. \<open>d\<close> is the state
  after \<^verbatim>\<open>datetime\<close> and \<^verbatim>\<open>openinterest\<close> were assigned.\<close>

definition adjust_and_store ::
  "params \<Rightarrow> csv_data \<Rightarrow> real \<Rightarrow> real \<Rightarrow> real \<Rightarrow> real \<Rightarrow> real \<Rightarrow> real \<Rightarrow> csv_data outcome" where
  "adjust_and_store p d o0 h0 l0 c0 adjustedclose0 v0 =
     (let (c1, adjustedclose) =
            (if swapcloses p then (adjustedclose0, c0) else (c0, adjustedclose0))
      in case py_div c1 adjustedclose of
           Inl e \<Rightarrow> Raised e d
         | Inr adjfactor \<Rightarrow>
             (case (if adjclose p then
                      (case py_div o0 adjfactor of Inl e \<Rightarrow> Inl e | Inr o1 \<Rightarrow>
                      (case py_div h0 adjfactor of Inl e \<Rightarrow> Inl e | Inr h1 \<Rightarrow>
                      (case py_div l0 adjfactor of Inl e \<Rightarrow> Inl e | Inr l1 \<Rightarrow>
                         Inr (o1, h1, l1, adjustedclose,
                              if adjvolume p then v0 * adjfactor else v0))))
                    else Inr (o0, h0, l0, c1, v0)) of
                Inl e \<Rightarrow> Raised e d
              | Inr (o2, h2, l2, c2, v2) \<Rightarrow>
                  (let rnd = (\<lambda>x. if round_p p then py_round x (decimals p) else x);
                       v3 = py_round v2 (roundvolume p)
                   in Returned True
                        (d\<lparr>lines := (lines d)
                             \<lparr>l_open := Some (rnd o2), l_high := Some (rnd h2),
                              l_low := Some (rnd l2), l_close := Some (rnd c2),
                              l_volume := Some v3,
                              l_adjclose := Some adjustedclose\<rparr>\<rparr>))))"

text \<open>The whole of \<^verbatim>\<open>_loadline\<close>. The volume is read under \<^verbatim>\<open>try ... except:\<close>, which
  turns every failure (a token \<^verbatim>\<open>float\<close> rejects, a line with no seventh token) into
  0.0.\<close>

definition loadline :: "py_env \<Rightarrow> params \<Rightarrow> csv_data \<Rightarrow> string list \<Rightarrow> csv_data outcome" where
  "loadline env p d0 linetokens0 =
     (case resolve_nulls d0 linetokens0 of
        (None, d) \<Rightarrow> Returned False d
      | (Some linetokens, d) \<Rightarrow>
     (case token linetokens 0 of Inl e \<Rightarrow> Raised e d | Inr dttxt \<Rightarrow>
     (case parse_date env dttxt of Inl e \<Rightarrow> Raised e d | Inr dtnum \<Rightarrow>
     (let d1 = d\<lparr>lines := (lines d)\<lparr>l_datetime := Some dtnum\<rparr>\<rparr> in
     (case float_token env linetokens 1 of Inl e \<Rightarrow> Raised e d1 | Inr o0 \<Rightarrow>
     (case float_token env linetokens 2 of Inl e \<Rightarrow> Raised e d1 | Inr h0 \<Rightarrow>
     (case float_token env linetokens 3 of Inl e \<Rightarrow> Raised e d1 | Inr l0 \<Rightarrow>
     (case float_token env linetokens 4 of Inl e \<Rightarrow> Raised e d1 | Inr c0 \<Rightarrow>
     (let d2 = d1\<lparr>lines := (lines d1)\<lparr>l_openinterest := Some 0\<rparr>\<rparr> in
     (case float_token env linetokens 5 of Inl e \<Rightarrow> Raised e d2 | Inr adjustedclose0 \<Rightarrow>
     (let v0 = (case float_token env linetokens 6 of Inl e \<Rightarrow> 0 | Inr v \<Rightarrow> v)
      in adjust_and_store p d2 o0 h0 l0 c0 adjustedclose0 v0)))))))))))"

subsection \<open>A concrete reading of the builtins, for running examples\<close>

text \<open>
  Plain decimal tokens only: \<open>int_of_decimal\<close> reads a non-empty run of digits,
  \<open>float_of_decimal\<close> an optional minus sign, digits and an optional fraction. On these
  tokens they agree with \<^verbatim>\<open>int()\<close> and \<^verbatim>\<open>float()\<close>; the examples use no other numeric
  token. \<open>day_number\<close> stands for the engine's numeric time and only has to tell dates
  apart.
\<close>

definition digit_val :: "char \<Rightarrow> nat option" where
  "digit_val ch =
     (if ch \<in> set ''0123456789'' then Some (of_char ch - 48) else None)"

fun digits_val :: "nat \<Rightarrow> string \<Rightarrow> nat option" where
  "digits_val acc [] = Some acc"
| "digits_val acc (ch # cs) =
     (case digit_val ch of None \<Rightarrow> None | Some v \<Rightarrow> digits_val (10 * acc + v) cs)"

definition int_of_decimal :: "string \<Rightarrow> int option" where
  "int_of_decimal s = (if s = [] then None else map_option int (digits_val 0 s))"

definition unsigned_decimal :: "string \<Rightarrow> real option" where
  "unsigned_decimal s =
     (let ip = takeWhile (\<lambda>ch. ch \<noteq> CHR ''.'') s;
          fp = drop (Suc (length ip)) s
      in if ip = [] \<or> (length ip < length s \<and> fp = []) then None
         else (case (digits_val 0 ip, digits_val 0 fp) of
                 (Some a, Some b) \<Rightarrow> Some (real a + real b / 10 ^ length fp)
               | _ \<Rightarrow> None))"

definition float_of_decimal :: "string \<Rightarrow> real option" where
  "float_of_decimal s =
     (case s of
        [] \<Rightarrow> None
      | ch # cs \<Rightarrow>
          if ch = CHR ''-'' then map_option uminus (unsigned_decimal cs)
          else unsigned_decimal s)"

definition day_number :: "int \<Rightarrow> int \<Rightarrow> int \<Rightarrow> real" where
  "day_number y m d = of_int (372 * y + 31 * m + d)"

definition decimal_env :: py_env where
  "decimal_env =
     \<lparr>py_int = int_of_decimal, py_float = float_of_decimal, sessionend_num = day_number\<rparr>"

definition fresh :: "string list list \<Rightarrow> csv_data" where
  "fresh src = \<lparr>source = src, lines = no_lines\<rparr>"

subsection \<open>\<^verbatim>\<open>base.py\<close>: Bar and BarSeries\<close>

text \<open>The type \<open>'t\<close> is \<^verbatim>\<open>datetime\<close>. The field \<^verbatim>\<open>open\<close> is \<open>open_b\<close> here.\<close>

record 't Bar =
  timestamp :: 't
  open_b :: real
  high :: real
  low :: real
  close :: real
  volume :: real
  openinterest :: real

text \<open>The dict of \<^verbatim>\<open>to_lines\<close>, in the order it is written. \<open>date2num\<close> is
  \<^verbatim>\<open>bt.date2num\<close>.\<close>

definition to_lines :: "('t \<Rightarrow> real) \<Rightarrow> 't Bar \<Rightarrow> (string \<times> real) list" where
  "to_lines date2num b =
     [(''datetime'', date2num (timestamp b)),
      (''open'', open_b b),
      (''high'', high b),
      (''low'', low b),
      (''close'', close b),
      (''volume'', volume b),
      (''openinterest'', 0)]"

record 't BarSeries =
  bars :: "'t Bar list"
  symbol :: string
  timeframe :: string

subsection \<open>\<^verbatim>\<open>YahooFetcher.fetch_data\<close>, from the decoded response on\<close>

text \<open>
  The response of the API, in the shape the code indexes:
  \<^verbatim>\<open>{"chart": {"error": ..., "result": [{"timestamp": [...],
  "indicators": {"quote": [{"open": [...], ...}]}}]}}\<close>. A number that may be null is a
  \<open>real option\<close>; \<open>r_timestamp = None\<close> is a result with no \<^verbatim>\<open>"timestamp"\<close> key;
  \<open>c_error\<close> is the error object (\<open>None\<close> for null or absent, falsy when empty); the
  document itself is a \<open>chart option\<close>, \<open>None\<close> when the key \<^verbatim>\<open>"chart"\<close> is absent.
\<close>

type_synonym json_num = "real option"

type_synonym quote = "string \<rightharpoonup> json_num list"

record chart_result =
  r_timestamp :: "int list option"
  r_quote :: "quote list"

record chart =
  c_error :: "(string \<times> string) list option"
  c_result :: "chart_result list"

text \<open>What \<^verbatim>\<open>fetch_data\<close> hands back: a BarSeries, or the empty
  \<^verbatim>\<open>pd.DataFrame(columns=[...])\<close> of line 230.\<close>

datatype 't fetched = Series "'t BarSeries" | EmptyDataFrame "string list"

text \<open>\<^verbatim>\<open>ohlcv[k][i]\<close>.\<close>

definition item :: "quote \<Rightarrow> string \<Rightarrow> nat \<Rightarrow> py_error + json_num" where
  "item ohlcv k i =
     (case ohlcv k of
        None \<Rightarrow> Inl KeyError
      | Some arr \<Rightarrow> if i < length arr then Inr (arr ! i) else Inl IndexError)"

text \<open>
  The test \<^verbatim>\<open>any(ohlcv[k][i] is None for k in ["open", "high", "low", "close"])\<close> and
  the four reads of the \<^verbatim>\<open>Bar(...)\<close> call look the same items up. \<open>ohlc_at\<close> does both:
  \<open>Inr None\<close> where the test is true (the generator stops at the first null, so later
  keys are not looked up), the four numbers where it is false.
\<close>

definition ohlc_at :: "quote \<Rightarrow> nat \<Rightarrow> py_error + (real \<times> real \<times> real \<times> real) option" where
  "ohlc_at ohlcv i =
     (case item ohlcv ''open'' i of Inl e \<Rightarrow> Inl e | Inr None \<Rightarrow> Inr None | Inr (Some o1) \<Rightarrow>
     (case item ohlcv ''high'' i of Inl e \<Rightarrow> Inl e | Inr None \<Rightarrow> Inr None | Inr (Some h1) \<Rightarrow>
     (case item ohlcv ''low'' i of Inl e \<Rightarrow> Inl e | Inr None \<Rightarrow> Inr None | Inr (Some l1) \<Rightarrow>
     (case item ohlcv ''close'' i of Inl e \<Rightarrow> Inl e | Inr None \<Rightarrow> Inr None | Inr (Some c1) \<Rightarrow>
        Inr (Some (o1, h1, l1, c1))))))"

text \<open>\<^verbatim>\<open>ohlcv["volume"][i] or 0.0\<close>: null and zero both give 0.0.\<close>

definition volume_at :: "quote \<Rightarrow> nat \<Rightarrow> py_error + real" where
  "volume_at ohlcv i =
     (case item ohlcv ''volume'' i of
        Inl e \<Rightarrow> Inl e
      | Inr None \<Rightarrow> Inr 0
      | Inr (Some v) \<Rightarrow> Inr (if v = 0 then 0 else v))"

text \<open>
  The loop \<^verbatim>\<open>for i, ts in enumerate(timestamps)\<close>; \<open>acc\<close> is the list \<^verbatim>\<open>bars\<close>.
  \<open>fromtimestamp\<close> is \<^verbatim>\<open>datetime.fromtimestamp\<close>, the first argument the \<^verbatim>\<open>Bar(...)\<close>
  call evaluates: it raises (ValueError, OverflowError or OSError) on a timestamp
  outside the range of the platform or of the years 1 to 9999, before the volume is
  read.
\<close>

fun collect_bars ::
  "(int \<Rightarrow> py_error + 't) \<Rightarrow> quote \<Rightarrow> nat \<Rightarrow> int list \<Rightarrow> 't Bar list
     \<Rightarrow> py_error + 't Bar list" where
  "collect_bars fromtimestamp ohlcv i [] acc = Inr acc"
| "collect_bars fromtimestamp ohlcv i (ts # rest) acc =
     (case ohlc_at ohlcv i of
        Inl e \<Rightarrow> Inl e
      | Inr None \<Rightarrow> collect_bars fromtimestamp ohlcv (Suc i) rest acc
      | Inr (Some (o1, h1, l1, c1)) \<Rightarrow>
          (case fromtimestamp ts of
             Inl e \<Rightarrow> Inl e
           | Inr dt \<Rightarrow>
               (case volume_at ohlcv i of
                  Inl e \<Rightarrow> Inl e
                | Inr v \<Rightarrow>
                    collect_bars fromtimestamp ohlcv (Suc i) rest
                      (acc @ [\<lparr>timestamp = dt, open_b = o1, high = h1, low = l1,
                               close = c1, volume = v, openinterest = 0\<rparr>]))))"

definition no_data_warning :: "string \<Rightarrow> string \<Rightarrow> string \<Rightarrow> string" where
  "no_data_warning ticker start_txt end_txt =
     ''WARNING: No trading data found for '' @ ticker @ '' between '' @ start_txt @
     '' and '' @ end_txt @ ''.''"

text \<open>
  Lines 223 to 251, with \<open>data\<close> the decoded response (the request before it belongs to
  the transport). \<open>start_txt\<close> and \<open>end_txt\<close> are \<^verbatim>\<open>start\<close> and \<^verbatim>\<open>end\<close> as the f-string
  prints them; \<open>ticker\<close> and \<open>tf\<close> are the arguments \<^verbatim>\<open>symbol\<close> and \<^verbatim>\<open>timeframe\<close>.
  The result pairs what was printed with what was raised or returned.
\<close>

definition fetch_data ::
  "(int \<Rightarrow> py_error + 't) \<Rightarrow> string \<Rightarrow> string \<Rightarrow> string \<Rightarrow> string \<Rightarrow> chart option
     \<Rightarrow> string list \<times> (py_error + 't fetched)" where
  "fetch_data fromtimestamp ticker start_txt end_txt tf data =
     (case data of
        None \<Rightarrow> ([], Inl KeyError)
      | Some ch \<Rightarrow>
          if c_error ch \<noteq> None \<and> c_error ch \<noteq> Some [] then ([], Inl ValueError)
          else
            (case c_result ch of
               [] \<Rightarrow> ([], Inl IndexError)
             | result # _ \<Rightarrow>
                 (case r_timestamp result of
                    None \<Rightarrow>
                      ([no_data_warning ticker start_txt end_txt],
                       Inr (EmptyDataFrame [''open'', ''high'', ''low'', ''close'', ''volume'']))
                  | Some timestamps \<Rightarrow>
                      (case r_quote result of
                         [] \<Rightarrow> ([], Inl IndexError)
                       | ohlcv # _ \<Rightarrow>
                           (case collect_bars fromtimestamp ohlcv 0 timestamps [] of
                              Inl e \<Rightarrow> ([], Inl e)
                            | Inr bs \<Rightarrow>
                                ([], Inr (Series \<lparr>bars = bs, symbol = ticker,
                                                  timeframe = tf\<rparr>)))))))"

subsection \<open>A concrete reading of \<^verbatim>\<open>datetime.fromtimestamp\<close>, for running examples\<close>

text \<open>
  \<^verbatim>\<open>datetime.fromtimestamp(ts)\<close> is the naive local time: the wall clock of the process's
  time zone at the instant \<open>ts\<close>. A naive datetime is written here as the seconds its
  wall clock shows since 1970-01-01 00:00:00, which orders naive datetimes as Python
  compares them. \<open>utcoffset\<close> is the zone's offset from UTC at an instant, in seconds. A
  wall clock outside the years 1 to 9999 raises ValueError (a timestamp beyond the C
  library's own range raises OSError or OverflowError instead; no example goes there).
\<close>

definition fromtimestamp_in :: "(int \<Rightarrow> int) \<Rightarrow> int \<Rightarrow> py_error + int" where
  "fromtimestamp_in utcoffset ts =
     (let wall = ts + utcoffset ts
      in if - 62135596800 \<le> wall \<and> wall \<le> 253402300799 then Inr wall
         else Inl ValueError)"

text \<open>UTC, and America/New_York between its clock changes of 8 March 2020 and 14 March
  2021: four hours behind UTC until 2020-11-01 06:00:00 UTC (the instant 1604210400),
  five hours behind from then on.\<close>

definition utc :: "int \<Rightarrow> int" where
  "utc ts = 0"

definition new_york_2020 :: "int \<Rightarrow> int" where
  "new_york_2020 ts = (if ts < 1604210400 then - 14400 else - 18000)"

subsection \<open>\<^verbatim>\<open>YahooFinanceData\<close>: the cursor\<close>

text \<open>\<open>bars_attr\<close> is the attribute \<^verbatim>\<open>_bars\<close>, which \<^verbatim>\<open>__init__\<close> does not create
  (\<open>None\<close>); \<open>feed_lines\<close> are the slots \<^verbatim>\<open>getattr(self.lines, key)[0]\<close>.\<close>

record 't feed =
  idx :: int
  bars_attr :: "'t fetched option"
  feed_lines :: "string \<rightharpoonup> real"

definition init :: "'t feed" where
  "init = \<lparr>idx = - 1, bars_attr = None, feed_lines = Map.empty\<rparr>"

text \<open>\<^verbatim>\<open>start\<close>, once \<^verbatim>\<open>fetch_data\<close> has returned \<open>fb\<close>.\<close>

definition start :: "'t fetched \<Rightarrow> 't feed \<Rightarrow> 't feed" where
  "start fb st = st\<lparr>bars_attr := Some fb, idx := - 1\<rparr>"

text \<open>\<^verbatim>\<open>len(self._bars)\<close>: \<^verbatim>\<open>BarSeries.__len__\<close>, or the row count of the empty
  frame.\<close>

definition len :: "'t fetched \<Rightarrow> int" where
  "len fb = (case fb of Series s \<Rightarrow> int (length (bars s)) | EmptyDataFrame cols \<Rightarrow> 0)"

text \<open>Python's list indexing: a negative index counts from the end.\<close>

definition list_item :: "'a list \<Rightarrow> int \<Rightarrow> py_error + 'a" where
  "list_item xs i =
     (if 0 \<le> i \<and> i < int (length xs) then Inr (xs ! nat i)
      else if i < 0 \<and> - int (length xs) \<le> i then Inr (xs ! nat (i + int (length xs)))
      else Inl IndexError)"

text \<open>The loop \<^verbatim>\<open>for key, value in bar_dict.items()\<close>.\<close>

definition assign :: "(string \<rightharpoonup> real) \<Rightarrow> (string \<times> real) list \<Rightarrow> (string \<rightharpoonup> real)" where
  "assign m kvs = foldl (\<lambda>m' (k, v). m'(k \<mapsto> v)) m kvs"

definition load :: "('t \<Rightarrow> real) \<Rightarrow> 't feed \<Rightarrow> 't feed outcome" where
  "load date2num st0 =
     (let st = st0\<lparr>idx := idx st0 + 1\<rparr>
      in case bars_attr st of
           None \<Rightarrow> Raised AttributeError st
         | Some fb \<Rightarrow>
             if len fb \<le> idx st then Returned False st
             else
               (case fb of
                  EmptyDataFrame cols \<Rightarrow> Raised AttributeError st
                | Series s \<Rightarrow>
                    (case list_item (bars s) (idx st) of
                       Inl e \<Rightarrow> Raised e st
                     | Inr bar \<Rightarrow>
                         Returned True
                           (st\<lparr>feed_lines :=
                                 assign (feed_lines st) (to_lines date2num bar)\<rparr>))))"

text \<open>A consumer that keeps calling \<^verbatim>\<open>_load\<close>: \<open>nth_load date2num k st\<close> is the outcome
  of call number \<open>k + 1\<close> from the state \<open>st\<close> (a call that raises ends the run).\<close>

fun nth_load :: "('t \<Rightarrow> real) \<Rightarrow> nat \<Rightarrow> 't feed \<Rightarrow> 't feed outcome" where
  "nth_load date2num 0 st = load date2num st"
| "nth_load date2num (Suc k) st =
     (case load date2num st of
        Raised e st' \<Rightarrow> Raised e st'
      | Returned b st' \<Rightarrow> nth_load date2num k st')"

section \<open>Properties\<close>

subsection \<open>Evaluating the examples\<close>

lemmas example_defs =
  decimal_env_def float_of_decimal_def unsigned_decimal_def int_of_decimal_def
  digit_val_def day_number_def fresh_def no_lines_def default_params_def
  parse_date_def valid_date_def days_in_month_def is_leap_def
  py_round_def round_half_even_def

lemmas loadline_defs =
  loadline_def token_def float_token_def adjust_and_store_def py_div_def

subsection \<open>The parts of \<^verbatim>\<open>_loadline\<close>\<close>

declare resolve_nulls.simps [simp del]

lemma resolve_nulls_clean:
  "''null'' \<notin> set (drop 1 linetokens) \<Longrightarrow> resolve_nulls d linetokens = (Some linetokens, d)"
  by (subst resolve_nulls.simps) simp

lemma resolve_nulls_skip:
  assumes "''null'' \<in> set (drop 1 linetokens)" and "[] \<notin> set (source d)"
  shows "resolve_nulls d linetokens =
           (case dropWhile (\<lambda>l. ''null'' \<in> set (drop 1 l)) (source d) of
              [] \<Rightarrow> (None, d\<lparr>source := []\<rparr>)
            | l # rest \<Rightarrow> (Some l, d\<lparr>source := rest\<rparr>))"
  using assms
proof (induction "source d" arbitrary: d linetokens)
  case Nil
  then show ?case
    by (subst resolve_nulls.simps) (simp add: getnextline_def)
next
  case (Cons l rest)
  from Cons.hyps(2) [symmetric] Cons.prems have l: "l \<noteq> []" and src: "source d = l # rest"
    by auto
  then obtain t ts where lt: "l = t # ts"
    by (cases l) auto
  show ?case
  proof (cases "''null'' \<in> set (drop 1 l)")
    case True
    have "resolve_nulls d linetokens = resolve_nulls (d\<lparr>source := rest\<rparr>) l"
      using Cons.prems(1) src lt
      by (subst resolve_nulls.simps) (simp add: getnextline_def)
    also have "\<dots> = (case dropWhile (\<lambda>l. ''null'' \<in> set (drop 1 l)) rest of
              [] \<Rightarrow> (None, d\<lparr>source := []\<rparr>)
            | l' # rest' \<Rightarrow> (Some l', d\<lparr>source := rest'\<rparr>))"
    proof (cases "dropWhile (\<lambda>l. ''null'' \<in> set (drop 1 l)) rest")
      case Nil
      with Cons.hyps(1) [of "d\<lparr>source := rest\<rparr>" l] True Cons.prems(2) src
      show ?thesis by (simp del: dropWhile_eq_Nil_conv)
    next
      case (Cons a as)
      with Cons.hyps(1) [of "d\<lparr>source := rest\<rparr>" l] True Cons.prems(2) src
      show ?thesis by simp
    qed
    finally show ?thesis
      using True src by simp
  next
    case False
    have "resolve_nulls d linetokens = resolve_nulls (d\<lparr>source := rest\<rparr>) l"
      using Cons.prems(1) src lt
      by (subst resolve_nulls.simps) (simp add: getnextline_def)
    also have "\<dots> = (Some l, d\<lparr>source := rest\<rparr>)"
      using False by (rule resolve_nulls_clean)
    finally show ?thesis
      using False src by simp
  qed
qed

lemma py_round_zero: "py_round 0 n = 0"
  by (simp add: py_round_def round_half_even_def)


lemma loadline_parsed:
  assumes "''null'' \<notin> set (ot # ht # lt # ct # adjt # others)"
    and "parse_date env dttxt = Inr dtnum"
    and "py_float env ot = Some ov" and "py_float env ht = Some hv"
    and "py_float env lt = Some lv" and "py_float env ct = Some cv"
    and "py_float env adjt = Some av"
  shows "loadline env p d (dttxt # ot # ht # lt # ct # adjt # others) =
           adjust_and_store p
             (d\<lparr>lines := (lines d)\<lparr>l_datetime := Some dtnum, l_openinterest := Some 0\<rparr>\<rparr>)
             ov hv lv cv av
             (case others of
                [] \<Rightarrow> 0
              | vt # _ \<Rightarrow> (case py_float env vt of None \<Rightarrow> 0 | Some v \<Rightarrow> v))"
proof -
  have "resolve_nulls d (dttxt # ot # ht # lt # ct # adjt # others) =
          (Some (dttxt # ot # ht # lt # ct # adjt # others), d)"
    using assms(1) by (intro resolve_nulls_clean) simp
  then show ?thesis
    using assms(2-)
    by (cases others) (simp_all add: loadline_def token_def float_token_def split: option.splits)
qed

lemma adjust_and_store_zero:
  assumes "(if swapcloses p then cv else av) = 0"
  shows "adjust_and_store p d ov hv lv cv av vv = Raised ZeroDivisionError d"
  using assms by (cases "swapcloses p") (simp_all add: adjust_and_store_def py_div_def)

lemma adjust_and_store_ok:
  assumes "c = (if swapcloses p then av else cv)"
    and "adj = (if swapcloses p then cv else av)"
    and "adj \<noteq> 0" and "adjclose p \<Longrightarrow> c \<noteq> 0"
  shows "adjust_and_store p d ov hv lv cv av vv =
           Returned True
             (d\<lparr>lines := (lines d)
                \<lparr>l_open := Some (let x = (if adjclose p then ov / (c / adj) else ov)
                                 in if round_p p then py_round x (decimals p) else x),
                 l_high := Some (let x = (if adjclose p then hv / (c / adj) else hv)
                                 in if round_p p then py_round x (decimals p) else x),
                 l_low := Some (let x = (if adjclose p then lv / (c / adj) else lv)
                                 in if round_p p then py_round x (decimals p) else x),
                 l_close := Some (let x = (if adjclose p then adj else c)
                                 in if round_p p then py_round x (decimals p) else x),
                 l_volume := Some (py_round (if adjclose p \<and> adjvolume p then vv * (c / adj) else vv)
                                     (roundvolume p)),
                 l_adjclose := Some adj\<rparr>\<rparr>)"
  using assms
  by (cases "swapcloses p"; cases "adjclose p")
     (simp_all add: adjust_and_store_def py_div_def Let_def)

subsection \<open>Adjusted-close reconciliation\<close>




subsection \<open>A zero adjusted close\<close>

text \<open>
  Claim C2. The adjusted close is the value \<^verbatim>\<open>adjustedclose\<close> that line 151 divides by:
  the adjusted-close column, after the exchange with the close column when
  \<^verbatim>\<open>swapcloses\<close> is set. Take a line with no null marker after the date whose date and
  five price tokens parse. When that adjusted close is zero, the division
  \<^verbatim>\<open>c / adjustedclose\<close> raises ZeroDivisionError, under every setting of the
  parameters: the call does not return (so it is not the False of an exhausted source),
  the source is not advanced (so it is not a null skip), and none of open, high, low,
  close, volume is written.
\<close>

theorem zero_adjusted_close_raises:
  assumes "''null'' \<notin> set (ot # ht # lt # ct # adjt # others)"
    and "parse_date env dttxt = Inr dtnum"
    and "py_float env ot = Some ov" and "py_float env ht = Some hv"
    and "py_float env lt = Some lv"
    and "py_float env ct = Some cv" and "py_float env adjt = Some av"
    and "(if swapcloses p then cv else av) = 0"
  shows "loadline env p d (dttxt # ot # ht # lt # ct # adjt # others) =
           Raised ZeroDivisionError
             (d\<lparr>lines := (lines d)\<lparr>l_datetime := Some dtnum, l_openinterest := Some 0\<rparr>\<rparr>)"
  using assms(1-7) by (simp add: loadline_parsed adjust_and_store_zero [OF assms(8)])

text \<open>Under the default parameters, a zero in the adjusted-close column; with
  \<^verbatim>\<open>swapcloses\<close> set, a zero in the column that then holds the adjusted close.\<close>

theorem zero_adjusted_close_default:
  "loadline decimal_env default_params (fresh [])
     [''2020-01-02'', ''100'', ''105'', ''95'', ''102'', ''0'', ''2000000''] =
   Raised ZeroDivisionError
     \<lparr>source = [],
      lines = no_lines\<lparr>l_datetime := Some (day_number 2020 1 2),
                        l_openinterest := Some 0\<rparr>\<rparr> \<and>
   loadline decimal_env (default_params\<lparr>swapcloses := True\<rparr>) (fresh [])
     [''2020-01-02'', ''100'', ''105'', ''95'', ''0'', ''102'', ''2000000''] =
   Raised ZeroDivisionError
     \<lparr>source = [],
      lines = no_lines\<lparr>l_datetime := Some (day_number 2020 1 2),
                        l_openinterest := Some 0\<rparr>\<rparr>"
  using zero_adjusted_close_raises [where env = decimal_env and p = default_params
      and d = "fresh []" and dttxt = "''2020-01-02''" and ot = "''100''" and ht = "''105''"
      and lt = "''95''" and ct = "''102''" and adjt = "''0''" and others = "[''2000000'']"
      and dtnum = "day_number 2020 1 2" and ov = 100 and hv = 105 and lv = 95
      and cv = 102 and av = 0]
    zero_adjusted_close_raises [where env = decimal_env
      and p = "default_params\<lparr>swapcloses := True\<rparr>"
      and d = "fresh []" and dttxt = "''2020-01-02''" and ot = "''100''" and ht = "''105''"
      and lt = "''95''" and ct = "''0''" and adjt = "''102''" and others = "[''2000000'']"
      and dtnum = "day_number 2020 1 2" and ov = 100 and hv = 105 and lv = 95
      and cv = 0 and av = 102]
  by (simp add: decimal_env_def float_of_decimal_def unsigned_decimal_def
        int_of_decimal_def digit_val_def parse_date_def valid_date_def
        days_in_month_def default_params_def fresh_def)

subsection \<open>Null lines\<close>

text \<open>
  Claim C3. A line with the null marker in any token after the date is dropped, and so
  is every following line of the source that has one: the call is the call on the first
  line of the source free of null markers, with the source left after that line, so the
  bar is the one that line gives on its own. When the source has no such line the call
  returns False, raises nothing, and leaves the source empty. (A tokenised line is never
  the empty list.)
\<close>

theorem null_lines_skipped:
  assumes "''null'' \<in> set (drop 1 linetokens)" and "[] \<notin> set (source d)"
  shows "loadline env p d linetokens =
           (case dropWhile (\<lambda>l. ''null'' \<in> set (drop 1 l)) (source d) of
              [] \<Rightarrow> Returned False (d\<lparr>source := []\<rparr>)
            | l # rest \<Rightarrow> loadline env p (d\<lparr>source := rest\<rparr>) l)"
proof (cases "dropWhile (\<lambda>l. ''null'' \<in> set (drop 1 l)) (source d)")
  case Nil
  with resolve_nulls_skip [OF assms] show ?thesis
    by (simp add: loadline_def del: dropWhile_eq_Nil_conv)
next
  case (Cons l rest)
  then have "''null'' \<notin> set (drop 1 l)"
    by (auto simp: dropWhile_eq_Cons_conv)
  then have "resolve_nulls (d\<lparr>source := rest\<rparr>) l = (Some l, d\<lparr>source := rest\<rparr>)"
    by (rule resolve_nulls_clean)
  with resolve_nulls_skip [OF assms] Cons show ?thesis
    by (simp add: loadline_def)
qed

text \<open>Two null lines before a full one: the bar is that of the full line and the source
  is left at the line after it. A source that ends during the skip: False, nothing
  raised.\<close>

theorem null_lines_skipped_example:
  "loadline decimal_env default_params
     (fresh [[''2020-01-02'', ''100'', ''null'', ''95'', ''102'', ''102'', ''5''],
             [''2020-01-03'', ''100'', ''105'', ''95'', ''102'', ''102'', ''1000000''],
             [''2020-01-06'', ''101'', ''106'', ''96'', ''103'', ''103'', ''7'']])
     [''2020-01-01'', ''null'', ''null'', ''null'', ''null'', ''null'', ''null''] =
   Returned True
     \<lparr>source = [[''2020-01-06'', ''101'', ''106'', ''96'', ''103'', ''103'', ''7'']],
      lines = \<lparr>l_datetime = Some (day_number 2020 1 3), l_open = Some 100,
               l_high = Some 105, l_low = Some 95, l_close = Some 102,
               l_volume = Some 1000000, l_openinterest = Some 0,
               l_adjclose = Some 102\<rparr>\<rparr> \<and>
   loadline decimal_env default_params
     (fresh [[''2020-01-02'', ''100'', ''null'', ''95'', ''102'', ''102'', ''5'']])
     [''2020-01-01'', ''null'', ''null'', ''null'', ''null'', ''null'', ''null''] =
   Returned False (fresh [])"
proof
  show "loadline decimal_env default_params
     (fresh [[''2020-01-02'', ''100'', ''null'', ''95'', ''102'', ''102'', ''5''],
             [''2020-01-03'', ''100'', ''105'', ''95'', ''102'', ''102'', ''1000000''],
             [''2020-01-06'', ''101'', ''106'', ''96'', ''103'', ''103'', ''7'']])
     [''2020-01-01'', ''null'', ''null'', ''null'', ''null'', ''null'', ''null''] =
   Returned True
     \<lparr>source = [[''2020-01-06'', ''101'', ''106'', ''96'', ''103'', ''103'', ''7'']],
      lines = \<lparr>l_datetime = Some (day_number 2020 1 3), l_open = Some 100,
               l_high = Some 105, l_low = Some 95, l_close = Some 102,
               l_volume = Some 1000000, l_openinterest = Some 0,
               l_adjclose = Some 102\<rparr>\<rparr>"
    by (subst null_lines_skipped)
       (simp_all add: loadline_defs example_defs resolve_nulls_clean)
  show "loadline decimal_env default_params
     (fresh [[''2020-01-02'', ''100'', ''null'', ''95'', ''102'', ''102'', ''5'']])
     [''2020-01-01'', ''null'', ''null'', ''null'', ''null'', ''null'', ''null''] =
   Returned False (fresh [])"
    by (subst null_lines_skipped) (simp_all add: fresh_def)
qed

subsection \<open>A volume token that is not a number\<close>

text \<open>
  The \<^verbatim>\<open>except\<close> clause of line 145 at work. Take a line with no null marker after the
  date whose date and price tokens parse, with a close and an adjusted close the
  adjustment can divide by, and whose volume token \<^verbatim>\<open>float\<close> rejects. The line is kept:
  the parser returns True with the bar of that line and volume 0.
\<close>

lemma non_numeric_volume_defaults:
  assumes "''null'' \<notin> set (ot # ht # lt # ct # adjt # vt # others)"
    and "parse_date env dttxt = Inr dtnum"
    and "py_float env ot = Some ov" and "py_float env ht = Some hv"
    and "py_float env lt = Some lv" and "py_float env vt = None"
    and "py_float env ct = Some cv" and "py_float env adjt = Some av"
    and "c = (if swapcloses p then av else cv)"
    and "adj = (if swapcloses p then cv else av)"
    and "adj \<noteq> 0" and "adjclose p \<Longrightarrow> c \<noteq> 0"
    and "scale = (\<lambda>x. if adjclose p then x / (c / adj) else x)"
    and "rnd = (\<lambda>x. if round_p p then py_round x (decimals p) else x)"
  shows "loadline env p d (dttxt # ot # ht # lt # ct # adjt # vt # others) =
           Returned True
             (d\<lparr>lines :=
                  \<lparr>l_datetime = Some dtnum,
                   l_open = Some (rnd (scale ov)),
                   l_high = Some (rnd (scale hv)),
                   l_low = Some (rnd (scale lv)),
                   l_close = Some (rnd (if adjclose p then adj else c)),
                   l_volume = Some 0,
                   l_openinterest = Some 0,
                   l_adjclose = Some adj\<rparr>\<rparr>)"
proof -
  have "loadline env p d (dttxt # ot # ht # lt # ct # adjt # vt # others) =
          adjust_and_store p
            (d\<lparr>lines := (lines d)\<lparr>l_datetime := Some dtnum, l_openinterest := Some 0\<rparr>\<rparr>)
            ov hv lv cv av 0"
    using assms(1-8) by (simp add: loadline_parsed)
  also have "\<dots> = Returned True
             (d\<lparr>lines := (lines d)\<lparr>l_datetime := Some dtnum, l_openinterest := Some 0,
                   l_open := Some (rnd (scale ov)),
                   l_high := Some (rnd (scale hv)),
                   l_low := Some (rnd (scale lv)),
                   l_close := Some (rnd (if adjclose p then adj else c)),
                   l_volume := Some 0,
                   l_adjclose := Some adj\<rparr>\<rparr>)"
    using assms(9-)
    by (simp add: adjust_and_store_ok [where c = c and adj = adj] py_round_zero)
  finally show ?thesis
    by simp
qed

text \<open>A volume token \<^verbatim>\<open>N/A\<close> on the split line: the bar of that line, with volume 0.\<close>

lemma non_numeric_volume_example:
  "loadline decimal_env default_params (fresh [])
     [''2020-01-02'', ''100'', ''105'', ''95'', ''102'', ''51'', ''N/A''] =
   Returned True
     \<lparr>source = [],
      lines = \<lparr>l_datetime = Some (day_number 2020 1 2), l_open = Some 50,
               l_high = Some (105 / 2), l_low = Some (95 / 2), l_close = Some 51,
               l_volume = Some 0, l_openinterest = Some 0,
               l_adjclose = Some 51\<rparr>\<rparr>"
proof -
  have "loadline decimal_env default_params (fresh [])
     [''2020-01-02'', ''100'', ''105'', ''95'', ''102'', ''51'', ''N/A''] =
    Returned True
             ((fresh [])\<lparr>lines :=
                  \<lparr>l_datetime = Some (day_number 2020 1 2),
                   l_open = Some (py_round (100 / 2) 2),
                   l_high = Some (py_round (105 / 2) 2),
                   l_low = Some (py_round (95 / 2) 2),
                   l_close = Some (py_round 51 2),
                   l_volume = Some 0,
                   l_openinterest = Some 0,
                   l_adjclose = Some 51\<rparr>\<rparr>)"
    using non_numeric_volume_defaults [where env = decimal_env and p = default_params
        and d = "fresh []"
        and dttxt = "''2020-01-02''" and ot = "''100''" and ht = "''105''" and lt = "''95''"
        and ct = "''102''" and adjt = "''51''" and vt = "''N/A''" and others = "[]"
        and dtnum = "day_number 2020 1 2" and ov = 100 and hv = 105 and lv = 95
        and cv = 102 and av = 51 and c = 102 and adj = 51
        and scale = "\<lambda>x. x / 2" and rnd = "\<lambda>x. py_round x 2"]
    by (simp add: decimal_env_def float_of_decimal_def unsigned_decimal_def
          int_of_decimal_def digit_val_def parse_date_def valid_date_def
          days_in_month_def default_params_def)
  then show ?thesis
    by (simp add: example_defs)
qed

text \<open>
  Claim C4, evaluated on the code. The comment of line 145 names the null marker as the
  case the \<^verbatim>\<open>except\<close> clause covers, but the scan of lines 114 to 122 runs over
  \<^verbatim>\<open>linetokens[1:]\<close>, the volume column included, and comes first. A line whose date and
  prices are valid and whose volume token is \<^verbatim>\<open>null\<close> is therefore dropped, not given
  volume 0.0: the bar that comes out is that of the next line, and with no next line
  the call returns False and no bar comes out at all.
\<close>

theorem null_volume_line_dropped:
  "loadline decimal_env default_params
     (fresh [[''2020-01-03'', ''101'', ''106'', ''96'', ''103'', ''103'', ''1000000'']])
     [''2020-01-02'', ''100'', ''105'', ''95'', ''102'', ''102'', ''null''] =
   Returned True
     \<lparr>source = [],
      lines = \<lparr>l_datetime = Some (day_number 2020 1 3), l_open = Some 101,
               l_high = Some 106, l_low = Some 96, l_close = Some 103,
               l_volume = Some 1000000, l_openinterest = Some 0,
               l_adjclose = Some 103\<rparr>\<rparr> \<and>
   loadline decimal_env default_params (fresh [])
     [''2020-01-02'', ''100'', ''105'', ''95'', ''102'', ''102'', ''null''] =
   Returned False (fresh [])"
  by (simp add: loadline_defs example_defs resolve_nulls_clean resolve_nulls.simps [of _ "[_, _, _, _, _, _, ''null'']"]
        getnextline_def)

subsection \<open>Rounding of the volume\<close>

text \<open>
  Claim C5, as the code has it. \<^verbatim>\<open>v = round(v, self.p.roundvolume)\<close> stands after the
  \<^verbatim>\<open>if self.p.round:\<close> block, not in it: for every line that parses, the volume stored
  is the adjusted volume rounded to \<^verbatim>\<open>roundvolume\<close> decimals whatever the \<^verbatim>\<open>round\<close> flag
  \<open>b\<close> is, and \<^verbatim>\<open>roundvolume\<close> 0 (the default False) rounds it to a whole number.
\<close>

theorem volume_rounding_not_gated:
  assumes "''null'' \<notin> set (ot # ht # lt # ct # adjt # vt # others)"
    and "parse_date env dttxt = Inr dtnum"
    and "py_float env ot = Some ov" and "py_float env ht = Some hv"
    and "py_float env lt = Some lv" and "py_float env vt = Some vv"
    and "py_float env ct = Some cv" and "py_float env adjt = Some av"
    and "c = (if swapcloses p then av else cv)"
    and "adj = (if swapcloses p then cv else av)"
    and "adj \<noteq> 0" and "adjclose p \<Longrightarrow> c \<noteq> 0"
  shows "l_volume (lines (final
           (loadline env (p\<lparr>round_p := b\<rparr>) d
              (dttxt # ot # ht # lt # ct # adjt # vt # others)))) =
         Some (py_round (if adjclose p \<and> adjvolume p then vv * (c / adj) else vv)
                 (roundvolume p)) \<and>
         py_round x 0 = of_int (round_half_even x)"
proof -
  let ?q = "p\<lparr>round_p := b\<rparr>"
  have "loadline env ?q d (dttxt # ot # ht # lt # ct # adjt # vt # others) =
          adjust_and_store ?q
            (d\<lparr>lines := (lines d)\<lparr>l_datetime := Some dtnum, l_openinterest := Some 0\<rparr>\<rparr>)
            ov hv lv cv av vv"
    using assms(1-8) by (simp add: loadline_parsed)
  also have "\<dots> = Returned True
           ((d\<lparr>lines := (lines d)\<lparr>l_datetime := Some dtnum, l_openinterest := Some 0\<rparr>\<rparr>)
             \<lparr>lines := (lines (d\<lparr>lines := (lines d)\<lparr>l_datetime := Some dtnum, l_openinterest := Some 0\<rparr>\<rparr>))
                \<lparr>l_open := Some (let x = (if adjclose ?q then ov / (c / adj) else ov)
                                 in if round_p ?q then py_round x (decimals ?q) else x),
                 l_high := Some (let x = (if adjclose ?q then hv / (c / adj) else hv)
                                 in if round_p ?q then py_round x (decimals ?q) else x),
                 l_low := Some (let x = (if adjclose ?q then lv / (c / adj) else lv)
                                 in if round_p ?q then py_round x (decimals ?q) else x),
                 l_close := Some (let x = (if adjclose ?q then adj else c)
                                 in if round_p ?q then py_round x (decimals ?q) else x),
                 l_volume := Some (py_round (if adjclose ?q \<and> adjvolume ?q then vv * (c / adj) else vv)
                                     (roundvolume ?q)),
                 l_adjclose := Some adj\<rparr>\<rparr>)"
    by (rule adjust_and_store_ok) (use assms(9-) in simp_all)
  finally show ?thesis
    by (simp add: final_def py_round_def)
qed

text \<open>The \<^verbatim>\<open>round\<close> flag off, \<^verbatim>\<open>roundvolume\<close> at its default: a factor of 1.5 takes the
  volume 2000001 to 3000001.5, which is stored as 3000002.\<close>

theorem volume_rounding_not_gated_example:
  "l_volume (lines (final
     (loadline decimal_env (default_params\<lparr>round_p := False\<rparr>) (fresh [])
        [''2020-01-02'', ''150'', ''153'', ''147'', ''153'', ''102'', ''2000001'']))) =
   Some 3000002"
  using volume_rounding_not_gated [where x = 0 and env = decimal_env and p = default_params
      and b = False and d = "fresh []"
      and dttxt = "''2020-01-02''" and ot = "''150''" and ht = "''153''" and lt = "''147''"
      and ct = "''153''" and adjt = "''102''" and vt = "''2000001''" and others = "[]"
      and dtnum = "day_number 2020 1 2" and ov = 150 and hv = 153 and lv = 147
      and vv = 2000001 and cv = 153 and av = 102 and c = 153 and adj = 102]
  by (simp add: decimal_env_def float_of_decimal_def unsigned_decimal_def
        int_of_decimal_def digit_val_def parse_date_def valid_date_def
        days_in_month_def default_params_def py_round_def round_half_even_def)

text \<open>The whole outcome for that line: with rounding disabled and the default
  \<^verbatim>\<open>roundvolume\<close>, the volume \<open>6000003 / 2\<close> is rounded all the same.\<close>

theorem volume_rounded_with_round_off:
  "\<not> round_p (default_params\<lparr>round_p := False\<rparr>) \<and>
   roundvolume (default_params\<lparr>round_p := False\<rparr>) = 0 \<and>
   (2000001 :: real) * (153 / 102) = 6000003 / 2 \<and>
   loadline decimal_env (default_params\<lparr>round_p := False\<rparr>) (fresh [])
     [''2020-01-02'', ''150'', ''153'', ''147'', ''153'', ''102'', ''2000001''] =
   Returned True
     \<lparr>source = [],
      lines = \<lparr>l_datetime = Some (day_number 2020 1 2), l_open = Some 100,
               l_high = Some 102, l_low = Some 98, l_close = Some 102,
               l_volume = Some 3000002, l_openinterest = Some 0,
               l_adjclose = Some 102\<rparr>\<rparr>"
  by (simp add: loadline_defs example_defs resolve_nulls_clean)

subsection \<open>Swapped close columns\<close>

text \<open>
  Claim C8. Take a line with no null marker after the date whose close and adjusted-close
  tokens are numbers. Reading the line with these two columns exchanged under
  \<^verbatim>\<open>swapcloses\<close> gives the outcome (the bar, or the exception, and the state) of
  reading the line itself without \<^verbatim>\<open>swapcloses\<close>.
\<close>

theorem swapcloses_exchanged_columns:
  assumes "''null'' \<notin> set (ot # ht # lt # ct # adjt # others)"
    and "py_float env ct = Some cv" and "py_float env adjt = Some av"
  shows "loadline env (p\<lparr>swapcloses := True\<rparr>) d (dttxt # ot # ht # lt # adjt # ct # others) =
         loadline env (p\<lparr>swapcloses := False\<rparr>) d (dttxt # ot # ht # lt # ct # adjt # others)"
proof -
  have "resolve_nulls d (dttxt # ot # ht # lt # adjt # ct # others) =
          (Some (dttxt # ot # ht # lt # adjt # ct # others), d)"
    using assms(1) by (intro resolve_nulls_clean) auto
  moreover have "resolve_nulls d (dttxt # ot # ht # lt # ct # adjt # others) =
          (Some (dttxt # ot # ht # lt # ct # adjt # others), d)"
    using assms(1) by (intro resolve_nulls_clean) auto
  moreover have "adjust_and_store (p\<lparr>swapcloses := True\<rparr>) d' a1 a2 a3 av cv a4 =
                 adjust_and_store (p\<lparr>swapcloses := False\<rparr>) d' a1 a2 a3 cv av a4"
    for d' a1 a2 a3 a4
    by (simp add: adjust_and_store_def py_div_def Let_def)
  ultimately show ?thesis
    using assms(2,3)
    by (simp add: loadline_def token_def float_token_def split: sum.splits option.splits)
qed

text \<open>The split line with its two close columns exchanged, read with \<^verbatim>\<open>swapcloses\<close>.\<close>

theorem swapcloses_exchanged_example:
  "loadline decimal_env (default_params\<lparr>swapcloses := True\<rparr>) (fresh [])
     [''2020-01-02'', ''100'', ''105'', ''95'', ''51'', ''102'', ''2000000''] =
   Returned True
     \<lparr>source = [],
      lines = \<lparr>l_datetime = Some (day_number 2020 1 2), l_open = Some 50,
               l_high = Some (105 / 2), l_low = Some (95 / 2), l_close = Some 51,
               l_volume = Some 4000000, l_openinterest = Some 0,
               l_adjclose = Some 51\<rparr>\<rparr>"
proof -
  have "loadline decimal_env (default_params\<lparr>swapcloses := True\<rparr>) (fresh [])
          [''2020-01-02'', ''100'', ''105'', ''95'', ''51'', ''102'', ''2000000''] =
        loadline decimal_env (default_params\<lparr>swapcloses := False\<rparr>) (fresh [])
          [''2020-01-02'', ''100'', ''105'', ''95'', ''102'', ''51'', ''2000000'']"
    by (rule swapcloses_exchanged_columns [where cv = 102 and av = 51])
       (simp_all add: decimal_env_def float_of_decimal_def unsigned_decimal_def digit_val_def)
  also have "\<dots> = Returned True
     \<lparr>source = [],
      lines = \<lparr>l_datetime = Some (day_number 2020 1 2), l_open = Some 50,
               l_high = Some (105 / 2), l_low = Some (95 / 2), l_close = Some 51,
               l_volume = Some 4000000, l_openinterest = Some 0,
               l_adjclose = Some 51\<rparr>\<rparr>"
    by (simp add: loadline_defs example_defs resolve_nulls_clean)
  finally show ?thesis .
qed

subsection \<open>The loop of \<^verbatim>\<open>fetch_data\<close> over parallel arrays\<close>

lemma ohlc_at_parallel:
  assumes "q ''open'' = Some os" and "q ''high'' = Some hs"
    and "q ''low'' = Some ls" and "q ''close'' = Some cs"
    and "i < length os" and "i < length hs" and "i < length ls" and "i < length cs"
  shows "ohlc_at q i =
           Inr (if os ! i \<noteq> None \<and> hs ! i \<noteq> None \<and> ls ! i \<noteq> None \<and> cs ! i \<noteq> None
                then Some (the (os ! i), the (hs ! i), the (ls ! i), the (cs ! i))
                else None)"
  using assms by (auto simp: ohlc_at_def item_def split: option.splits)

lemma volume_at_parallel:
  assumes "q ''volume'' = Some vs" and "i < length vs"
  shows "volume_at q i = Inr (case vs ! i of None \<Rightarrow> 0 | Some v \<Rightarrow> v)"
  using assms by (auto simp: volume_at_def item_def split: option.splits)

lemma collect_bars_parallel:
  assumes "q ''open'' = Some os" and "q ''high'' = Some hs"
    and "q ''low'' = Some ls" and "q ''close'' = Some cs" and "q ''volume'' = Some vs"
    and "length os = n" and "length hs = n" and "length ls = n"
    and "length cs = n" and "length vs = n"
    and "i + length rest = n"
    and "\<forall>j<length rest.
           os ! (i + j) \<noteq> None \<and> hs ! (i + j) \<noteq> None \<and> ls ! (i + j) \<noteq> None \<and>
           cs ! (i + j) \<noteq> None \<longrightarrow>
           f (rest ! j) = Inr (g (rest ! j))"
  shows "collect_bars f q i rest acc =
           Inr (acc @
                map (\<lambda>j. \<lparr>timestamp = g (rest ! (j - i)), open_b = the (os ! j),
                           high = the (hs ! j), low = the (ls ! j), close = the (cs ! j),
                           volume = (case vs ! j of None \<Rightarrow> 0 | Some v \<Rightarrow> v),
                           openinterest = 0\<rparr>)
                  (filter (\<lambda>j. os ! j \<noteq> None \<and> hs ! j \<noteq> None \<and> ls ! j \<noteq> None \<and>
                                cs ! j \<noteq> None)
                     [i..<n]))"
  using assms(11,12)
proof (induction rest arbitrary: i acc)
  case Nil
  then show ?case by simp
next
  case (Cons t rest)
  then have lt: "i < n" and nxt: "Suc i + length rest = n"
    by simp_all
  have here: "f t = Inr (g t)"
    if "os ! i \<noteq> None \<and> hs ! i \<noteq> None \<and> ls ! i \<noteq> None \<and> cs ! i \<noteq> None"
    using Cons.prems(2) [rule_format, of 0] that by simp
  have later: "\<forall>j<length rest.
           os ! (Suc i + j) \<noteq> None \<and> hs ! (Suc i + j) \<noteq> None \<and>
           ls ! (Suc i + j) \<noteq> None \<and> cs ! (Suc i + j) \<noteq> None \<longrightarrow>
           f (rest ! j) = Inr (g (rest ! j))"
  proof (intro allI impI)
    fix j assume "j < length rest"
      and "os ! (Suc i + j) \<noteq> None \<and> hs ! (Suc i + j) \<noteq> None \<and>
           ls ! (Suc i + j) \<noteq> None \<and> cs ! (Suc i + j) \<noteq> None"
    with Cons.prems(2) [rule_format, of "Suc j"] show "f (rest ! j) = Inr (g (rest ! j))"
      by simp
  qed
  have upt: "[i..<n] = i # [Suc i..<n]"
    using lt by (simp add: upt_conv_Cons)
  have shift: "map (\<lambda>j. \<lparr>timestamp = g ((t # rest) ! (j - i)), open_b = the (os ! j),
                           high = the (hs ! j), low = the (ls ! j), close = the (cs ! j),
                           volume = (case vs ! j of None \<Rightarrow> 0 | Some v \<Rightarrow> v),
                           openinterest = 0\<rparr>) js =
               map (\<lambda>j. \<lparr>timestamp = g (rest ! (j - Suc i)), open_b = the (os ! j),
                           high = the (hs ! j), low = the (ls ! j), close = the (cs ! j),
                           volume = (case vs ! j of None \<Rightarrow> 0 | Some v \<Rightarrow> v),
                           openinterest = 0\<rparr>) js"
    if "set js \<subseteq> {Suc i..<n}" for js
  proof (rule map_cong [OF refl])
    fix j assume "j \<in> set js"
    with that have "Suc i \<le> j" by auto
    then have "j - i = Suc (j - Suc i)" by simp
    then show "\<lparr>timestamp = g ((t # rest) ! (j - i)), open_b = the (os ! j),
                           high = the (hs ! j), low = the (ls ! j), close = the (cs ! j),
                           volume = (case vs ! j of None \<Rightarrow> 0 | Some v \<Rightarrow> v),
                           openinterest = 0\<rparr> =
               \<lparr>timestamp = g (rest ! (j - Suc i)), open_b = the (os ! j),
                           high = the (hs ! j), low = the (ls ! j), close = the (cs ! j),
                           volume = (case vs ! j of None \<Rightarrow> 0 | Some v \<Rightarrow> v),
                           openinterest = 0\<rparr>"
      by simp
  qed
  have o: "ohlc_at q i =
           Inr (if os ! i \<noteq> None \<and> hs ! i \<noteq> None \<and> ls ! i \<noteq> None \<and> cs ! i \<noteq> None
                then Some (the (os ! i), the (hs ! i), the (ls ! i), the (cs ! i))
                else None)"
    using assms(1-4,6-9) lt by (intro ohlc_at_parallel) simp_all
  have v: "volume_at q i = Inr (case vs ! i of None \<Rightarrow> 0 | Some v \<Rightarrow> v)"
    using assms(5,10) lt by (intro volume_at_parallel) simp_all
  show ?case
    unfolding upt
    using here by (simp add: o v Cons.IH [OF nxt later] shift del: upt_Suc)
qed

subsection \<open>A response with no timestamp array\<close>

text \<open>
  Claim C6, evaluated on the code. For a response whose first result has no
  \<^verbatim>\<open>"timestamp"\<close> key, \<^verbatim>\<open>fetch_data\<close> prints the warning and raises nothing, but what it
  returns is the empty \<^verbatim>\<open>pd.DataFrame\<close> of line 230, which is not the empty BarSeries
  for the caller's symbol and timeframe. Its length is 0, so the first \<^verbatim>\<open>_load\<close> of the
  cursor over it returns False.
\<close>

theorem fetch_data_no_timestamp:
  "fetch_data fromtimestamp ticker start_txt end_txt tf
     (Some \<lparr>c_error = None, c_result = \<lparr>r_timestamp = None, r_quote = qs\<rparr> # rs\<rparr>) =
   ([no_data_warning ticker start_txt end_txt],
    Inr (EmptyDataFrame [''open'', ''high'', ''low'', ''close'', ''volume''])) \<and>
   EmptyDataFrame [''open'', ''high'', ''low'', ''close'', ''volume''] \<noteq>
     Series \<lparr>bars = [], symbol = ticker, timeframe = tf\<rparr> \<and>
   load date2num (start (EmptyDataFrame [''open'', ''high'', ''low'', ''close'', ''volume'']) init) =
     Returned False
       \<lparr>idx = 0,
        bars_attr = Some (EmptyDataFrame [''open'', ''high'', ''low'', ''close'', ''volume'']),
        feed_lines = Map.empty\<rparr>"
  by (simp add: fetch_data_def load_def start_def init_def len_def)

subsection \<open>Null positions in the API arrays\<close>

text \<open>
  Claim C7, as the code has it. Take a response with no error, a timestamp array \<open>ts\<close>
  and the five arrays open, high, low, close, volume of the same length, and let the
  retained positions be those where none of open, high, low, close is null. When
  \<^verbatim>\<open>datetime.fromtimestamp\<close> accepts the timestamp of every retained position,
  \<^verbatim>\<open>fetch_data\<close> prints nothing and returns the BarSeries, under the caller's symbol and
  timeframe, whose bars are those of the retained positions, in the order of the
  arrays; the bar of a retained position carries that position's converted timestamp
  and values, and volume 0 where its volume is null. The timestamps of the bars increase
  strictly when the input timestamps do and the conversion keeps their order; the code
  itself neither sorts nor checks.
\<close>

theorem fetch_data_skips_null_positions:
  fixes fromtimestamp :: "int \<Rightarrow> py_error + 't::order"
  assumes "c_error ch = None \<or> c_error ch = Some []"
    and "c_result ch = r # rs" and "r_timestamp r = Some ts" and "r_quote r = q # qs"
    and "q ''open'' = Some os" and "q ''high'' = Some hs"
    and "q ''low'' = Some ls" and "q ''close'' = Some cs" and "q ''volume'' = Some vs"
    and "length os = length ts" and "length hs = length ts" and "length ls = length ts"
    and "length cs = length ts" and "length vs = length ts"
    and "retained = filter (\<lambda>i. os ! i \<noteq> None \<and> hs ! i \<noteq> None \<and> ls ! i \<noteq> None \<and>
                                cs ! i \<noteq> None) [0..<length ts]"
    and "\<forall>i\<in>set retained. fromtimestamp (ts ! i) = Inr (conv (ts ! i))"
    and "bar_at = (\<lambda>i. \<lparr>timestamp = conv (ts ! i), open_b = the (os ! i),
                         high = the (hs ! i), low = the (ls ! i), close = the (cs ! i),
                         volume = (case vs ! i of None \<Rightarrow> 0 | Some v \<Rightarrow> v),
                         openinterest = 0\<rparr>)"
  shows "fetch_data fromtimestamp ticker start_txt end_txt tf (Some ch) =
           ([], Inr (Series \<lparr>bars = map bar_at retained, symbol = ticker, timeframe = tf\<rparr>)) \<and>
         (strict_mono conv \<and> sorted_wrt (<) ts \<longrightarrow>
            sorted_wrt (<) (map timestamp (map bar_at retained)))"
proof
  have accepted: "\<forall>j<length ts.
           os ! (0 + j) \<noteq> None \<and> hs ! (0 + j) \<noteq> None \<and> ls ! (0 + j) \<noteq> None \<and>
           cs ! (0 + j) \<noteq> None \<longrightarrow>
           fromtimestamp (ts ! j) = Inr (conv (ts ! j))"
    using assms(16) unfolding assms(15) by simp
  have "collect_bars fromtimestamp q 0 ts [] = Inr (map bar_at retained)"
    using collect_bars_parallel [where f = fromtimestamp and g = conv and i = 0
        and rest = ts and acc = "[]" and n = "length ts", OF assms(5-9) _ _ _ _ _ _ accepted]
      assms(10-15,17)
    by simp
  then show "fetch_data fromtimestamp ticker start_txt end_txt tf (Some ch) =
           ([], Inr (Series \<lparr>bars = map bar_at retained, symbol = ticker, timeframe = tf\<rparr>))"
    using assms(1-4) by (auto simp: fetch_data_def)
  show "strict_mono conv \<and> sorted_wrt (<) ts \<longrightarrow>
            sorted_wrt (<) (map timestamp (map bar_at retained))"
  proof
    assume a: "strict_mono conv \<and> sorted_wrt (<) ts"
    have "sorted_wrt (\<lambda>i j. conv (ts ! i) < conv (ts ! j)) [0..<length ts]"
      using a by (auto simp: sorted_wrt_iff_nth_less strict_mono_def)
    then have "sorted_wrt (\<lambda>i j. conv (ts ! i) < conv (ts ! j)) retained"
      unfolding assms(15) by (rule sorted_wrt_filter)
    then show "sorted_wrt (<) (map timestamp (map bar_at retained))"
      by (simp add: sorted_wrt_map assms(17))
  qed
qed

text \<open>Timestamps 1, 2, 3 under UTC, with a null close at position 1 and a null volume at
  position 2: two bars, those of positions 0 and 2, the second with volume 0, their
  timestamps in order.\<close>

theorem fetch_data_skips_null_positions_example:
  "fetch_data (fromtimestamp_in utc) ''NVDA'' ''2020-01-01'' ''2020-02-01'' ''1d''
     (Some \<lparr>c_error = None,
            c_result =
              [\<lparr>r_timestamp = Some [1, 2, 3],
                r_quote =
                  [[''open'' \<mapsto> [Some 9, Some 10, Some 11],
                    ''high'' \<mapsto> [Some 11, Some 12, Some 13],
                    ''low'' \<mapsto> [Some 8, Some 9, Some 10],
                    ''close'' \<mapsto> [Some 10, None, Some 12],
                    ''volume'' \<mapsto> [Some 500, Some 600, None]]]\<rparr>]\<rparr>) =
   ([], Inr (Series
      \<lparr>bars =
         [\<lparr>timestamp = 1, open_b = 9, high = 11, low = 8, close = 10, volume = 500,
           openinterest = 0\<rparr>,
          \<lparr>timestamp = 3, open_b = 11, high = 13, low = 10, close = 12, volume = 0,
           openinterest = 0\<rparr>],
       symbol = ''NVDA'', timeframe = ''1d''\<rparr>)) \<and>
   sorted_wrt (<) [1, 3 :: int]"
proof -
  let ?q = "[''open'' \<mapsto> [Some 9, Some 10, Some 11],
            ''high'' \<mapsto> [Some 11, Some 12, Some 13],
            ''low'' \<mapsto> [Some 8, Some 9, Some 10],
            ''close'' \<mapsto> [Some 10, None, Some 12],
            ''volume'' \<mapsto> [Some 500, Some 600, None]] :: quote"
  have up: "[0..<3] = [0, 1, 2]"
    by (simp add: upt_rec)
  show ?thesis
    using fetch_data_skips_null_positions [where fromtimestamp = "fromtimestamp_in utc"
      and conv = "\<lambda>t::int. t"
      and ticker = "''NVDA''" and start_txt = "''2020-01-01''" and end_txt = "''2020-02-01''"
      and tf = "''1d''"
      and ch = "\<lparr>c_error = None,
                   c_result = [\<lparr>r_timestamp = Some [1, 2, 3], r_quote = [?q]\<rparr>]\<rparr>"
      and r = "\<lparr>r_timestamp = Some [1, 2, 3], r_quote = [?q]\<rparr>" and rs = "[]"
      and ts = "[1, 2, 3]" and q = ?q and qs = "[]"
      and os = "[Some 9, Some 10, Some 11]" and hs = "[Some 11, Some 12, Some 13]"
      and ls = "[Some 8, Some 9, Some 10]" and cs = "[Some 10, None, Some 12]"
      and vs = "[Some 500, Some 600, None]", OF _ _ _ _ _ _ _ _ _ _ _ _ _ _ refl _ refl]
    by (simp add: up strict_mono_def fromtimestamp_in_def utc_def)
qed

text \<open>
  Where the claim fails. Under America/New_York the instants 1604208600 and 1604212200,
  an hour apart across the end of daylight saving time, are both 01:30:00 on 1 November
  2020: the input timestamps increase strictly and the two bars carry the same
  timestamp. And the instant \<open>- 10000000000000\<close> lies before the year 1: the conversion
  raises ValueError and no series is returned, although no value of that position is
  null.
\<close>

theorem fetch_data_order_lost:
  "sorted_wrt (<) [1604208600, 1604212200 :: int] \<and>
   fetch_data (fromtimestamp_in new_york_2020) ''NVDA'' ''2020-11-01'' ''2020-11-02'' ''1h''
     (Some \<lparr>c_error = None,
            c_result =
              [\<lparr>r_timestamp = Some [1604208600, 1604212200],
                r_quote =
                  [[''open'' \<mapsto> [Some 9, Some 10],
                    ''high'' \<mapsto> [Some 11, Some 12],
                    ''low'' \<mapsto> [Some 8, Some 9],
                    ''close'' \<mapsto> [Some 10, Some 11],
                    ''volume'' \<mapsto> [Some 500, Some 600]]]\<rparr>]\<rparr>) =
   ([], Inr (Series
      \<lparr>bars =
         [\<lparr>timestamp = 1604194200, open_b = 9, high = 11, low = 8, close = 10,
           volume = 500, openinterest = 0\<rparr>,
          \<lparr>timestamp = 1604194200, open_b = 10, high = 12, low = 9, close = 11,
           volume = 600, openinterest = 0\<rparr>],
       symbol = ''NVDA'', timeframe = ''1h''\<rparr>)) \<and>
   \<not> sorted_wrt (<) [1604194200, 1604194200 :: int] \<and>
   fetch_data (fromtimestamp_in utc) ''NVDA'' ''2020-01-01'' ''2020-02-01'' ''1d''
     (Some \<lparr>c_error = None,
            c_result =
              [\<lparr>r_timestamp = Some [- 10000000000000],
                r_quote =
                  [[''open'' \<mapsto> [Some 9], ''high'' \<mapsto> [Some 11], ''low'' \<mapsto> [Some 8],
                    ''close'' \<mapsto> [Some 10], ''volume'' \<mapsto> [Some 500]]]\<rparr>]\<rparr>) =
   ([], Inl ValueError :: py_error + int fetched)"
  by (simp add: fetch_data_def ohlc_at_def volume_at_def item_def fromtimestamp_in_def
        new_york_2020_def utc_def)

subsection \<open>The cursor over a BarSeries\<close>

lemma assign_to_lines:
  "assign m (to_lines date2num b) =
     m(''datetime'' \<mapsto> date2num (timestamp b), ''open'' \<mapsto> open_b b, ''high'' \<mapsto> high b,
       ''low'' \<mapsto> low b, ''close'' \<mapsto> close b, ''volume'' \<mapsto> volume b,
       ''openinterest'' \<mapsto> 0)"
  by (simp add: assign_def to_lines_def)

lemma assign_to_lines_twice:
  "assign (assign m (to_lines date2num b1)) (to_lines date2num b2) =
     assign m (to_lines date2num b2)"
  by (rule ext) (simp add: assign_to_lines)

lemma load_in_range:
  assumes "bars_attr st = Some (Series s)" and "idx st = int j - 1" and "j < length (bars s)"
  shows "load date2num st =
           Returned True
             (st\<lparr>idx := int j,
                 feed_lines := assign (feed_lines st) (to_lines date2num (bars s ! j))\<rparr>)"
  using assms by (simp add: load_def len_def list_item_def Let_def)

lemma load_past_end:
  assumes "bars_attr st = Some (Series s)" and "idx st = int j - 1" and "length (bars s) \<le> j"
  shows "load date2num st = Returned False (st\<lparr>idx := int j\<rparr>)"
  using assms by (simp add: load_def len_def Let_def)

lemma nth_load_series:
  assumes "bars_attr st = Some (Series s)" and "idx st = int j - 1"
  shows "nth_load date2num k st =
           (if j + k < length (bars s)
            then Returned True
                   (st\<lparr>idx := int (j + k),
                       feed_lines :=
                         assign (feed_lines st) (to_lines date2num (bars s ! (j + k)))\<rparr>)
            else Returned False
                   (st\<lparr>idx := int (j + k),
                       feed_lines :=
                         (if j < length (bars s)
                          then assign (feed_lines st) (to_lines date2num (last (bars s)))
                          else feed_lines st)\<rparr>))"
  using assms
proof (induction k arbitrary: st j)
  case 0
  show ?case
  proof (cases "j < length (bars s)")
    case True
    with 0 show ?thesis by (simp add: load_in_range)
  next
    case False
    with 0 show ?thesis by (simp add: load_past_end)
  qed
next
  case (Suc k)
  show ?case
  proof (cases "j < length (bars s)")
    case True
    let ?st = "st\<lparr>idx := int j,
                 feed_lines := assign (feed_lines st) (to_lines date2num (bars s ! j))\<rparr>"
    have ld: "load date2num st = Returned True ?st"
      using Suc.prems True by (rule load_in_range)
    have "bars_attr ?st = Some (Series s)" and "idx ?st = int (Suc j) - 1"
      using Suc.prems by simp_all
    note ih = Suc.IH [OF this]
    have lst: "bars s ! j = last (bars s)" if "\<not> Suc j < length (bars s)"
    proof -
      from that True have "length (bars s) = Suc j"
        by simp
      moreover from True have "bars s \<noteq> []"
        by auto
      ultimately show ?thesis
        by (simp add: last_conv_nth)
    qed
    show ?thesis
      using True lst by (simp add: ld ih assign_to_lines_twice)
  next
    case False
    let ?st = "st\<lparr>idx := int j\<rparr>"
    have ld: "load date2num st = Returned False ?st"
      using Suc.prems False by (intro load_past_end) auto
    have "bars_attr ?st = Some (Series s)" and "idx ?st = int (Suc j) - 1"
      using Suc.prems by simp_all
    note ih = Suc.IH [OF this]
    show ?thesis
      using False by (simp add: ld ih)
  qed
qed

text \<open>
  Claim C9. \<^verbatim>\<open>__init__\<close> and \<^verbatim>\<open>start\<close> leave the index at -1. Over a BarSeries \<open>s\<close> of
  \<open>n\<close> bars, call number \<open>k + 1\<close> of \<^verbatim>\<open>_load\<close> returns True for \<open>k < n\<close>, at index \<open>k\<close> and
  with the record of bar \<open>k\<close> in the lines, and returns False for every \<open>k \<ge> n\<close>: the
  index keeps growing, nothing wraps or resets, and the lines stay those of the last
  bar. With no bars the first call already returns False.
\<close>

theorem cursor_advances_then_stays_exhausted:
  "idx (init :: 't feed) = - 1 \<and>
   idx (start (Series s) st) = - 1 \<and>
   nth_load date2num k (start (Series s) st) =
     (if k < length (bars s)
      then Returned True
             \<lparr>idx = int k, bars_attr = Some (Series s),
              feed_lines = assign (feed_lines st) (to_lines date2num (bars s ! k))\<rparr>
      else Returned False
             \<lparr>idx = int k, bars_attr = Some (Series s),
              feed_lines =
                (if bars s = [] then feed_lines st
                 else assign (feed_lines st) (to_lines date2num (last (bars s))))\<rparr>)"
  using nth_load_series [where st = "start (Series s) st" and s = s and j = 0
      and date2num = date2num and k = k]
  by (cases st) (simp add: init_def start_def)

text \<open>Two bars: the calls return True, True, False, False at the indices 0 to 3, and
  the second call leaves the close of the second bar in the lines. No bars: the first
  call returns False.\<close>

theorem cursor_two_bars_example:
  "map (\<lambda>k. flag (nth_load real_of_int k
          (start (Series
             \<lparr>bars =
                [\<lparr>timestamp = 1, open_b = 9, high = 11, low = 8, close = 10, volume = 500,
                  openinterest = 0\<rparr>,
                 \<lparr>timestamp = 3, open_b = 11, high = 13, low = 10, close = 12, volume = 0,
                  openinterest = 0\<rparr>],
              symbol = ''NVDA'', timeframe = ''1d''\<rparr>) init)))
     [0, 1, 2, 3] =
   [Some True, Some True, Some False, Some False] \<and>
   map (\<lambda>k. idx (final (nth_load real_of_int k
          (start (Series
             \<lparr>bars =
                [\<lparr>timestamp = 1, open_b = 9, high = 11, low = 8, close = 10, volume = 500,
                  openinterest = 0\<rparr>,
                 \<lparr>timestamp = 3, open_b = 11, high = 13, low = 10, close = 12, volume = 0,
                  openinterest = 0\<rparr>],
              symbol = ''NVDA'', timeframe = ''1d''\<rparr>) init))))
     [0, 1, 2, 3] =
   [0, 1, 2, 3] \<and>
   feed_lines (final (nth_load real_of_int 1
          (start (Series
             \<lparr>bars =
                [\<lparr>timestamp = 1, open_b = 9, high = 11, low = 8, close = 10, volume = 500,
                  openinterest = 0\<rparr>,
                 \<lparr>timestamp = 3, open_b = 11, high = 13, low = 10, close = 12, volume = 0,
                  openinterest = 0\<rparr>],
              symbol = ''NVDA'', timeframe = ''1d''\<rparr>) init))) ''close'' = Some 12 \<and>
   flag (nth_load real_of_int 0
          (start (Series \<lparr>bars = [], symbol = ''NVDA'', timeframe = ''1d''\<rparr>)
             (init :: int feed))) =
   Some False"
  unfolding cursor_advances_then_stays_exhausted [THEN conjunct2, THEN conjunct2]
  by (simp add: flag_def final_def assign_to_lines)

subsection \<open>The record handed to the engine\<close>

text \<open>
  Claim C10. In the dict of \<^verbatim>\<open>to_lines\<close> the key \<^verbatim>\<open>openinterest\<close> is 0.0 whatever the
  bar's own \<^verbatim>\<open>openinterest\<close> field holds (changing that field changes nothing), while
  \<^verbatim>\<open>datetime\<close> is \<^verbatim>\<open>date2num\<close> of the timestamp and open, high, low, close, volume are
  the bar's fields; these seven are all its keys.
\<close>

theorem to_lines_openinterest_constant:
  "map_of (to_lines date2num b) ''openinterest'' = Some 0 \<and>
   to_lines date2num (b\<lparr>openinterest := x\<rparr>) = to_lines date2num b \<and>
   map_of (to_lines date2num b) ''datetime'' = Some (date2num (timestamp b)) \<and>
   map_of (to_lines date2num b) ''open'' = Some (open_b b) \<and>
   map_of (to_lines date2num b) ''high'' = Some (high b) \<and>
   map_of (to_lines date2num b) ''low'' = Some (low b) \<and>
   map_of (to_lines date2num b) ''close'' = Some (close b) \<and>
   map_of (to_lines date2num b) ''volume'' = Some (volume b) \<and>
   map fst (to_lines date2num b) =
     [''datetime'', ''open'', ''high'', ''low'', ''close'', ''volume'', ''openinterest'']"
  by (simp add: to_lines_def)

end
